theory Spec2Isabelle
  imports Main "HOL-Library.Sublist"
begin

section \<open>Ban-status change notifier\<close>

subsection \<open>Data of \<^verbatim>\<open>run_mcdc_demo.py\<close>\<close>

text \<open>
  \<^verbatim>\<open>MockUser\<close>: the four string attributes set by the constructor. Its \<^verbatim>\<open>pk\<close> is the
  constant 1 and is never read by the handler.
\<close>

record mock_user =
  username :: string
  email :: string
  first_name :: string
  last_name :: string

text \<open>
  \<^verbatim>\<open>MockUserProfile\<close>. The attribute \<^verbatim>\<open>pk\<close> is \<^verbatim>\<open>None\<close> or an integer; Python's
  truth test \<^verbatim>\<open>not instance.pk\<close> holds for \<^verbatim>\<open>None\<close> and for \<^verbatim>\<open>0\<close>.
\<close>

record user_profile =
  user :: mock_user
  is_banned :: bool
  pk :: "int option"

fun truthy :: "int option \<Rightarrow> bool" where
  "truthy None = False"
| "truthy (Some k) = (k \<noteq> 0)"

text \<open>
  What \<^verbatim>\<open>sender.objects.get(pk=...)\<close> can raise: \<^verbatim>\<open>sender.DoesNotExist\<close>, which the
  handler catches, or any other exception, which it does not.
\<close>

datatype exn = DoesNotExist | OtherException string

text \<open>
  \<^verbatim>\<open>MockSender\<close>: the lookup collaborator. \<^verbatim>\<open>objects_get s k\<close> is the result of
  \<^verbatim>\<open>sender.objects.get(pk=k)\<close>: a raised exception or the stored profile (an
  object, hence truthy in \<^verbatim>\<open>if previous:\<close>).
\<close>

record sender =
  objects_get :: "int \<Rightarrow> exn + user_profile"

text \<open>A Python return value of the handler: \<^verbatim>\<open>None\<close> or a string.\<close>

datatype pyval = PyNone | PyStr string

text \<open>
  One invocation: the value returned (or the exception that propagated), the calls made to
  the lookup with what each returned, and the lines written by \<^verbatim>\<open>print\<close>.
\<close>

record invocation =
  ret :: "exn + pyval"
  lookups :: "(int \<times> (exn + user_profile)) list"
  printed :: "string list"

subsection \<open>\<^verbatim>\<open>notify_user_ban_status_change\<close> of \<^verbatim>\<open>run_mcdc_demo.py\<close>\<close>

definition early_return :: invocation where
  "early_return = \<lparr>ret = Inr PyNone, lookups = [], printed = []\<rparr>"

text \<open>Lines 52 to 66: the decisions D2, D3 and D4 on \<^verbatim>\<open>previous\<close>.\<close>

definition decide :: "user_profile option \<Rightarrow> user_profile \<Rightarrow> pyval \<times> string list" where
  "decide previous instance =
     (let u = user instance in
      case previous of
        Some p \<Rightarrow>
          if is_banned p \<noteq> is_banned instance then
            if is_banned instance then
              (PyStr ''ban_sent'', [''MOCK: Enviando email de ban para '' @ email u])
            else
              (PyStr ''unban_sent'', [''MOCK: Enviando email de unban para '' @ email u])
          else (PyStr ''no_action'', [])
      | None \<Rightarrow> (PyStr ''no_action'', []))"

definition notify_user_ban_status_change :: "sender \<Rightarrow> user_profile \<Rightarrow> invocation" where
  "notify_user_ban_status_change s instance =
     (if \<not> truthy (pk instance) then early_return
      else
        case pk instance of
          None \<Rightarrow> early_return
        | Some k \<Rightarrow>
            (let r = objects_get s k in
             case r of
               Inl DoesNotExist \<Rightarrow>
                 (let (v, out) = decide None instance
                  in \<lparr>ret = Inr v, lookups = [(k, r)], printed = out\<rparr>)
             | Inl (OtherException e) \<Rightarrow>
                 \<lparr>ret = Inl (OtherException e), lookups = [(k, r)], printed = []\<rparr>
             | Inr p \<Rightarrow>
                 (let (v, out) = decide (Some p) instance
                  in \<lparr>ret = Inr v, lookups = [(k, r)], printed = out\<rparr>)))"

subsection \<open>The signal handler of \<^verbatim>\<open>users/signals.py\<close>\<close>

text \<open>
  A call \<^verbatim>\<open>send_ban_notification_email.delay(email, first_name, last_name)\<close> or
  \<^verbatim>\<open>send_unban_notification_email.delay(email, first_name, last_name)\<close>.
\<close>

datatype task_call =
  BanEmail string string string
| UnbanEmail string string string

record signal_run =
  sret :: "exn + pyval"
  slookups :: "(int \<times> (exn + user_profile)) list"
  delayed :: "task_call list"

text \<open>
  Modelled from the spec: \<^verbatim>\<open>users/signals.py\<close> is not among the sources. The body below
  is the listing of the handler quoted in the docstring of
  \<^verbatim>\<open>test_notify_user_ban_status_change_mcdc.py\<close> (section ANALISE DO METODO), which agrees with the
  spec's four gated decisions and its dispatch collaborator
  \<^verbatim>\<open>enqueueBanEmail(email, firstName, lastName)\<close>,
  \<^verbatim>\<open>enqueueUnbanEmail(email, firstName, lastName)\<close>. Every path returns \<^verbatim>\<open>None\<close>.
\<close>

definition signal_notify_user_ban_status_change :: "sender \<Rightarrow> user_profile \<Rightarrow> signal_run" where
  "signal_notify_user_ban_status_change s instance =
     (if \<not> truthy (pk instance) then \<lparr>sret = Inr PyNone, slookups = [], delayed = []\<rparr>
      else
        case pk instance of
          None \<Rightarrow> \<lparr>sret = Inr PyNone, slookups = [], delayed = []\<rparr>
        | Some k \<Rightarrow>
            (let r = objects_get s k; u = user instance in
             case r of
               Inl DoesNotExist \<Rightarrow> \<lparr>sret = Inr PyNone, slookups = [(k, r)], delayed = []\<rparr>
             | Inl (OtherException e) \<Rightarrow>
                 \<lparr>sret = Inl (OtherException e), slookups = [(k, r)], delayed = []\<rparr>
             | Inr p \<Rightarrow>
                 \<lparr>sret = Inr PyNone, slookups = [(k, r)],
                  delayed =
                    (if is_banned p \<noteq> is_banned instance then
                       if is_banned instance then
                         [BanEmail (email u) (first_name u) (last_name u)]
                       else [UnbanEmail (email u) (first_name u) (last_name u)]
                     else [])\<rparr>))"

text \<open>The fixtures of \<^verbatim>\<open>run_mcdc_tests\<close>: the default \<^verbatim>\<open>MockUser()\<close> and the two senders.\<close>

definition test_user :: mock_user where
  "test_user = \<lparr>username = ''testuser'', email = ''test@example.com'',
                first_name = ''Test'', last_name = ''User''\<rparr>"

definition MockUserProfile :: "mock_user \<Rightarrow> bool \<Rightarrow> int option \<Rightarrow> user_profile" where
  "MockUserProfile u b k = \<lparr>user = u, is_banned = b, pk = k\<rparr>"

definition sender_raising :: sender where
  "sender_raising = \<lparr>objects_get = (\<lambda>k. Inl DoesNotExist)\<rparr>"

definition sender_returning :: "user_profile \<Rightarrow> sender" where
  "sender_returning previous = \<lparr>objects_get = (\<lambda>k. Inr previous)\<rparr>"

text \<open>A second user, for invocations that differ in everything but the decisions.\<close>

definition other_user :: mock_user where
  "other_user = \<lparr>username = ''other'', email = ''other@example.com'',
                 first_name = ''Other'', last_name = ''Person''\<rparr>"

text \<open>
  What the lookup collaborator answers for the primary key of an instance, as far as the
  handler reads it: an exception or the banned flag of the previous record; nothing for an
  instance without a primary key.
\<close>

definition lookup_result :: "sender \<Rightarrow> user_profile \<Rightarrow> (exn + bool) option" where
  "lookup_result s instance =
     (case pk instance of
        None \<Rightarrow> None
      | Some k \<Rightarrow> Some (map_sum id is_banned (objects_get s k)))"

section \<open>Unread-message notifier\<close>

subsection \<open>Tables and collaborators of \<^verbatim>\<open>chat/tasks.py\<close>\<close>

text \<open>
  Modelled from the spec: the user model and \<^verbatim>\<open>chat/models.py\<close> are not among the sources.
  A user is an identity with an email address; a conversation has two participant
  references; a message belongs to one conversation and has a sender and a content. Rows
  carry their primary key, foreign keys hold the primary key of the row they refer to, and
  model instances compare equal when their primary keys are equal.
\<close>

record auth_user =
  user_id :: nat
  user_email :: string

record chat_room =
  room_id :: nat
  participant_1 :: nat
  participant_2 :: nat

record chat_message =
  msg_room :: nat
  msg_sender :: nat
  content :: string

record database =
  users :: "auth_user list"
  chat_rooms :: "chat_room list"
  messages :: "chat_message list"

text \<open>The arguments of one call \<^verbatim>\<open>send_mail(subject, message, from_email, recipient_list)\<close>.\<close>

record mail =
  subject :: string
  message :: string
  from_email :: string
  recipient_list :: "string list"

text \<open>
  The delivery collaborator \<^verbatim>\<open>send_mail\<close>, with a state of its own (an outbox, a
  connection): from its state and the arguments it gives its next state and either
  \<^verbatim>\<open>None\<close> (it returned) or \<^verbatim>\<open>Some e\<close> (it raised an \<^verbatim>\<open>Exception\<close> whose text is \<^verbatim>\<open>e\<close>).
\<close>

type_synonym 'w send_mail = "'w \<Rightarrow> mail \<Rightarrow> 'w \<times> string option"

text \<open>
  The state threaded through the task: the collaborator's state, the calls made to
  \<^verbatim>\<open>send_mail\<close> so far, and the lines written by \<^verbatim>\<open>print\<close>.
\<close>

record 'w task_state =
  world :: 'w
  calls :: "mail list"
  stdout :: "string list"

subsection \<open>Formatting\<close>

text \<open>\<^verbatim>\<open>str(n)\<close> for a non-negative integer: its decimal digits.\<close>

definition digit_char :: "nat \<Rightarrow> char" where
  "digit_char d = ''0123456789'' ! d"

fun str_nat :: "nat \<Rightarrow> string" where
  "str_nat n = (if n < 10 then [digit_char n] else str_nat (n div 10) @ [digit_char (n mod 10)])"

declare str_nat.simps [simp del]

text \<open>
  The two f-strings of lines 31 and 32. A Python string is a sequence of code points; the
  three accented letters are U+00EA, U+00E3 and U+00E1, one character each.
\<close>

definition subject_text :: "nat \<Rightarrow> string" where
  "subject_text n = ''Voc'' @ [CHR 0xEA] @ '' tem novas mensagens ('' @ str_nat n @ '')''"

definition message_text :: "nat \<Rightarrow> string" where
  "message_text n =
     ''Voc'' @ [CHR 0xEA] @ '' tem '' @ str_nat n @ '' novas mensagens n'' @ [CHR 0xE3] @
     ''o lidas. Acesse o AcheiUnB para visualiz'' @ [CHR 0xE1] @ ''-las.''"

definition error_line :: "auth_user \<Rightarrow> string \<Rightarrow> string" where
  "error_line u e = ''Erro ao enviar e-mail para '' @ user_email u @ '': '' @ e"

subsection \<open>\<^verbatim>\<open>send_new_message_notifications\<close>\<close>

definition chatrooms_as_p1 :: "database \<Rightarrow> auth_user \<Rightarrow> chat_room list" where
  "chatrooms_as_p1 db u = filter (\<lambda>c. participant_1 c = user_id u) (chat_rooms db)"

definition chatrooms_as_p2 :: "database \<Rightarrow> auth_user \<Rightarrow> chat_room list" where
  "chatrooms_as_p2 db u = filter (\<lambda>c. participant_2 c = user_id u) (chat_rooms db)"

text \<open>
  \<^verbatim>\<open>list(set(xs))\<close> on model instances: one element for each primary key. The order in
  which a Python set is iterated is not specified; the loop below only adds numbers.
\<close>

fun list_set :: "chat_room list \<Rightarrow> chat_room list" where
  "list_set [] = []"
| "list_set (c # cs) = (if room_id c \<in> set (map room_id cs) then list_set cs else c # list_set cs)"

definition all_chatrooms :: "database \<Rightarrow> auth_user \<Rightarrow> chat_room list" where
  "all_chatrooms db u = list_set (chatrooms_as_p1 db u @ chatrooms_as_p2 db u)"

text \<open>Lines 21 to 25; \<^verbatim>\<open>None\<close> when neither branch assigns.\<close>

definition other_participant :: "chat_room \<Rightarrow> auth_user \<Rightarrow> nat option" where
  "other_participant chatroom u =
     (if participant_1 chatroom = user_id u then Some (participant_2 chatroom)
      else if participant_2 chatroom = user_id u then Some (participant_1 chatroom)
      else None)"

text \<open>\<^verbatim>\<open>Message.objects.filter(room=chatroom, sender=other).count()\<close>.\<close>

definition message_count :: "database \<Rightarrow> chat_room \<Rightarrow> nat \<Rightarrow> nat" where
  "message_count db chatroom other =
     length (filter (\<lambda>m. msg_room m = room_id chatroom \<and> msg_sender m = other) (messages db))"

text \<open>The inner loop, lines 20 to 28, with the running value of \<^verbatim>\<open>new_messages_count\<close>.\<close>

fun count_loop :: "database \<Rightarrow> auth_user \<Rightarrow> chat_room list \<Rightarrow> nat \<Rightarrow> nat" where
  "count_loop db u [] n = n"
| "count_loop db u (chatroom # rest) n =
     count_loop db u rest
       (case other_participant chatroom u of
          None \<Rightarrow> n
        | Some other \<Rightarrow> n + message_count db chatroom other)"

definition new_messages_count :: "database \<Rightarrow> auth_user \<Rightarrow> nat" where
  "new_messages_count db u = count_loop db u (all_chatrooms db u) 0"

text \<open>Lines 31 to 34: the arguments of the call; \<^verbatim>\<open>dfe\<close> is \<^verbatim>\<open>settings.DEFAULT_FROM_EMAIL\<close>.\<close>

definition notification :: "string \<Rightarrow> auth_user \<Rightarrow> nat \<Rightarrow> mail" where
  "notification dfe u n =
     \<lparr>subject = subject_text n, message = message_text n, from_email = dfe,
      recipient_list = [user_email u]\<rparr>"

text \<open>The body of the outer loop for one user, lines 14 to 38.\<close>

definition process_user ::
  "'w send_mail \<Rightarrow> string \<Rightarrow> database \<Rightarrow> auth_user \<Rightarrow> 'w task_state \<Rightarrow> 'w task_state" where
  "process_user send dfe db u st =
     (let n = new_messages_count db u in
      if n > 0 then
        (let m = notification dfe u n in
         case send (world st) m of
           (w, None) \<Rightarrow> st\<lparr>world := w, calls := calls st @ [m]\<rparr>
         | (w, Some e) \<Rightarrow>
             st\<lparr>world := w, calls := calls st @ [m], stdout := stdout st @ [error_line u e]\<rparr>)
      else st)"

definition send_new_message_notifications ::
  "'w send_mail \<Rightarrow> string \<Rightarrow> database \<Rightarrow> 'w \<Rightarrow> 'w task_state" where
  "send_new_message_notifications send dfe db w =
     fold (process_user send dfe db) (users db) \<lparr>world = w, calls = [], stdout = []\<rparr>"

subsection \<open>The unread count in the words of the specification\<close>

text \<open>
  The conversations in which a user participates, the other participant of such a
  conversation, and the sum over these conversations of the messages the other participant
  authored.
\<close>

definition conversations_of :: "database \<Rightarrow> auth_user \<Rightarrow> chat_room list" where
  "conversations_of db u =
     filter (\<lambda>c. participant_1 c = user_id u \<or> participant_2 c = user_id u) (chat_rooms db)"

definition other_of :: "chat_room \<Rightarrow> auth_user \<Rightarrow> nat" where
  "other_of c u = (if participant_1 c = user_id u then participant_2 c else participant_1 c)"

definition unread_spec :: "database \<Rightarrow> auth_user \<Rightarrow> nat" where
  "unread_spec db u =
     (\<Sum>c\<leftarrow>conversations_of db u.
        length (filter (\<lambda>m. msg_room m = room_id c \<and> msg_sender m = other_of c u) (messages db)))"

text \<open>What the loop body for one user asks of \<^verbatim>\<open>send_mail\<close>: nothing or one call.\<close>

definition mails_for :: "string \<Rightarrow> database \<Rightarrow> auth_user \<Rightarrow> mail list" where
  "mails_for dfe db u =
     (if new_messages_count db u > 0 then [notification dfe u (new_messages_count db u)] else [])"

text \<open>
  Two delivery collaborators: the in-memory outbox of the test runner, which accepts every
  mail, and one that refuses the mails addressed to a given recipient list.
\<close>

definition locmem_send :: "(mail list) send_mail" where
  "locmem_send outbox m = (outbox @ [m], None)"

definition refusing_send :: "string list \<Rightarrow> (mail list) send_mail" where
  "refusing_send rcpt outbox m =
     (if recipient_list m = rcpt then (outbox, Some ''SMTPException'') else (outbox @ [m], None))"

text \<open>
  The fixture of \<^verbatim>\<open>test_notifications.py\<close>: two users, one chat room between them and
  two messages from the second user.
\<close>

definition user1 :: auth_user where
  "user1 = \<lparr>user_id = 1, user_email = ''test1@example.com''\<rparr>"

definition user2 :: auth_user where
  "user2 = \<lparr>user_id = 2, user_email = ''test2@example.com''\<rparr>"

definition test_db :: database where
  "test_db =
     \<lparr>users = [user1, user2],
      chat_rooms = [\<lparr>room_id = 1, participant_1 = 1, participant_2 = 2\<rparr>],
      messages =
        [\<lparr>msg_room = 1, msg_sender = 2, content = ''Hello user1!''\<rparr>,
         \<lparr>msg_room = 1, msg_sender = 2, content = ''How are you?''\<rparr>]\<rparr>"

text \<open>
  A second fixture in which both users have unread messages: two from the second user and
  one from the first.
\<close>

definition busy_db :: database where
  "busy_db =
     \<lparr>users = [user1, user2],
      chat_rooms = [\<lparr>room_id = 1, participant_1 = 1, participant_2 = 2\<rparr>],
      messages =
        [\<lparr>msg_room = 1, msg_sender = 2, content = ''Hello user1!''\<rparr>,
         \<lparr>msg_room = 1, msg_sender = 1, content = ''Hello user2!''\<rparr>,
         \<lparr>msg_room = 1, msg_sender = 2, content = ''How are you?''\<rparr>]\<rparr>"

definition user3 :: auth_user where
  "user3 = \<lparr>user_id = 3, user_email = ''test3@example.com''\<rparr>"

text \<open>
  The fixture of \<^verbatim>\<open>test_no_email_sent_if_no_new_messages\<close>: the users and the chat room
  of \<^verbatim>\<open>setUp\<close>, and no message.
\<close>

definition quiet_db :: database where
  "quiet_db =
     \<lparr>users = [user1, user2],
      chat_rooms = [\<lparr>room_id = 1, participant_1 = 1, participant_2 = 2\<rparr>],
      messages = []\<rparr>"

text \<open>Reading a decimal numeral back, to say what the digits of \<^verbatim>\<open>str(n)\<close> denote.\<close>

definition digit_value :: "char \<Rightarrow> nat" where
  "digit_value c = of_char c - 48"

definition int_of_digits :: "string \<Rightarrow> nat" where
  "int_of_digits cs = foldl (\<lambda>a c. 10 * a + digit_value c) 0 cs"

section \<open>Properties of the ban-status change notifier\<close>

lemmas notify_defs =
  notify_user_ban_status_change_def early_return_def decide_def Let_def

lemmas fixture_defs =
  MockUserProfile_def test_user_def other_user_def sender_raising_def sender_returning_def

text \<open>
  C1, as stated, at the first two cases of \<^verbatim>\<open>run_mcdc_tests\<close>: with the primary key absent
  the handler returns \<^verbatim>\<open>None\<close>, and in the terminal branch after a missing previous record
  it returns the string \<^verbatim>\<open>no_action\<close>; the two outcomes are not identical.
\<close>

theorem early_exit_differs_from_no_action:
  "ret (notify_user_ban_status_change sender_raising (MockUserProfile test_user False None))
     = Inr PyNone \<and>
   ret (notify_user_ban_status_change sender_raising (MockUserProfile test_user False (Some 1)))
     = Inr (PyStr ''no_action'') \<and>
   ret (notify_user_ban_status_change sender_raising (MockUserProfile test_user False None)) \<noteq>
   ret (notify_user_ban_status_change sender_raising (MockUserProfile test_user False (Some 1)))"
  by (simp add: notify_defs fixture_defs)

text \<open>
  C1, amended: whenever the primary key of the instance is absent, the handler returns
  \<^verbatim>\<open>None\<close>, never consults the lookup and prints no notification, whatever the lookup
  collaborator and the banned flags are; this value is not the string \<^verbatim>\<open>no_action\<close> that
  the other terminal branches return.
\<close>

theorem absent_pk_returns_None:
  assumes "pk instance = None"
  shows "notify_user_ban_status_change s instance =
           \<lparr>ret = Inr PyNone, lookups = [], printed = []\<rparr> \<and>
         ret (notify_user_ban_status_change s instance) \<noteq> Inr (PyStr ''no_action'')"
  using assms by (simp add: notify_user_ban_status_change_def early_return_def)

theorem absent_pk_returns_None_witness:
  "pk (MockUserProfile test_user True None) = None \<and>
   notify_user_ban_status_change (sender_returning (MockUserProfile test_user False (Some 1)))
       (MockUserProfile test_user True None) =
     \<lparr>ret = Inr PyNone, lookups = [], printed = []\<rparr> \<and>
   ret (notify_user_ban_status_change (sender_returning (MockUserProfile test_user False (Some 1)))
       (MockUserProfile test_user True None)) \<noteq> Inr (PyStr ''no_action'')"
proof -
  have h: "pk (MockUserProfile test_user True None) = None"
    by (simp add: MockUserProfile_def)
  show ?thesis
    using h absent_pk_returns_None [OF h,
        of "sender_returning (MockUserProfile test_user False (Some 1))"]
    by simp
qed

text \<open>
  C2, as stated, at a primary key that is present but 0: the collaborator holds a previous
  record that is not banned, the instance is banned, and the handler leaves through the
  early exit, returning \<^verbatim>\<open>None\<close> with no lookup and no notification.
\<close>

theorem zero_pk_sends_no_ban:
  "pk (MockUserProfile test_user True (Some 0)) \<noteq> None \<and>
   objects_get (sender_returning (MockUserProfile test_user False (Some 0))) 0 =
     Inr (MockUserProfile test_user False (Some 0)) \<and>
   is_banned (MockUserProfile test_user False (Some 0)) \<noteq>
     is_banned (MockUserProfile test_user True (Some 0)) \<and>
   is_banned (MockUserProfile test_user True (Some 0)) \<and>
   notify_user_ban_status_change (sender_returning (MockUserProfile test_user False (Some 0)))
       (MockUserProfile test_user True (Some 0)) =
     \<lparr>ret = Inr PyNone, lookups = [], printed = []\<rparr> \<and>
   ret (notify_user_ban_status_change (sender_returning (MockUserProfile test_user False (Some 0)))
       (MockUserProfile test_user True (Some 0))) \<noteq> Inr (PyStr ''ban_sent'')"
  by (simp add: notify_defs fixture_defs)

text \<open>
  C2, amended: whenever the primary key is present and not 0, the collaborator returns a
  previous record for it, and the previous and the new banned flags differ, the handler
  makes that one lookup, and returns \<^verbatim>\<open>ban_sent\<close> and prints the ban notification for the
  user of the instance if the instance is banned, and returns \<^verbatim>\<open>unban_sent\<close> and prints
  the unban notification for that user if it is not.
\<close>

theorem changed_flag_notifies:
  assumes "pk instance = Some k"
    and "k \<noteq> 0"
    and "objects_get s k = Inr previous"
    and "is_banned previous \<noteq> is_banned instance"
  shows "notify_user_ban_status_change s instance =
           (if is_banned instance then
              \<lparr>ret = Inr (PyStr ''ban_sent''), lookups = [(k, Inr previous)],
               printed = [''MOCK: Enviando email de ban para '' @ email (user instance)]\<rparr>
            else
              \<lparr>ret = Inr (PyStr ''unban_sent''), lookups = [(k, Inr previous)],
               printed = [''MOCK: Enviando email de unban para '' @ email (user instance)]\<rparr>)"
  using assms by (auto simp: notify_defs)

theorem changed_flag_notifies_witness:
  "notify_user_ban_status_change (sender_returning (MockUserProfile test_user False (Some 1)))
       (MockUserProfile test_user True (Some 1)) =
     \<lparr>ret = Inr (PyStr ''ban_sent''),
      lookups = [(1, Inr (MockUserProfile test_user False (Some 1)))],
      printed = [''MOCK: Enviando email de ban para test@example.com'']\<rparr> \<and>
   notify_user_ban_status_change (sender_returning (MockUserProfile test_user True (Some 1)))
       (MockUserProfile test_user False (Some 1)) =
     \<lparr>ret = Inr (PyStr ''unban_sent''),
      lookups = [(1, Inr (MockUserProfile test_user True (Some 1)))],
      printed = [''MOCK: Enviando email de unban para test@example.com'']\<rparr>"
proof -
  let ?off = "MockUserProfile test_user False (Some 1)"
  let ?on = "MockUserProfile test_user True (Some 1)"
  have p: "pk ?on = Some 1" "pk ?off = Some 1"
    by (simp_all add: MockUserProfile_def)
  have k: "(1::int) \<noteq> 0"
    by simp
  have g: "objects_get (sender_returning ?off) 1 = Inr ?off"
    "objects_get (sender_returning ?on) 1 = Inr ?on"
    by (simp_all add: sender_returning_def)
  have d: "is_banned ?off \<noteq> is_banned ?on" "is_banned ?on \<noteq> is_banned ?off"
    by (simp_all add: MockUserProfile_def)
  show ?thesis
    using changed_flag_notifies [OF p(1) k g(1) d(1)] changed_flag_notifies [OF p(2) k g(2) d(2)]
    by (simp add: MockUserProfile_def test_user_def)
qed







text \<open>
  C8: on the same lookup collaborator and instance, whenever the handler's outcome is
  \<^verbatim>\<open>ban_sent\<close> the signal handler makes exactly one dispatch call, the ban one, with the
  email, first name and last name of the instance's user, and no unban call; whenever it is
  \<^verbatim>\<open>unban_sent\<close> it makes exactly the unban call with these three values, and no ban call;
  whenever the outcome is \<^verbatim>\<open>no_action\<close> or \<^verbatim>\<open>None\<close> it makes no dispatch call.
\<close>

theorem dispatch_follows_outcome:
  assumes "d = notify_user_ban_status_change s instance"
    and "g = signal_notify_user_ban_status_change s instance"
    and "u = user instance"
  shows "(ret d = Inr (PyStr ''ban_sent'') \<longrightarrow>
            delayed g = [BanEmail (email u) (first_name u) (last_name u)]) \<and>
         (ret d = Inr (PyStr ''unban_sent'') \<longrightarrow>
            delayed g = [UnbanEmail (email u) (first_name u) (last_name u)]) \<and>
         (ret d = Inr (PyStr ''no_action'') \<or> ret d = Inr PyNone \<longrightarrow> delayed g = [])"
  unfolding assms
  by (auto simp: notify_defs signal_notify_user_ban_status_change_def
      split: option.splits sum.splits exn.splits prod.splits if_splits)

theorem dispatch_follows_outcome_witness:
  "ret (notify_user_ban_status_change (sender_returning (MockUserProfile test_user False (Some 1)))
       (MockUserProfile test_user True (Some 1))) = Inr (PyStr ''ban_sent'') \<and>
   delayed (signal_notify_user_ban_status_change
       (sender_returning (MockUserProfile test_user False (Some 1)))
       (MockUserProfile test_user True (Some 1))) =
     [BanEmail ''test@example.com'' ''Test'' ''User''] \<and>
   ret (notify_user_ban_status_change (sender_returning (MockUserProfile test_user True (Some 1)))
       (MockUserProfile test_user False (Some 1))) = Inr (PyStr ''unban_sent'') \<and>
   delayed (signal_notify_user_ban_status_change
       (sender_returning (MockUserProfile test_user True (Some 1)))
       (MockUserProfile test_user False (Some 1))) =
     [UnbanEmail ''test@example.com'' ''Test'' ''User''] \<and>
   ret (notify_user_ban_status_change sender_raising (MockUserProfile test_user False (Some 1)))
     = Inr (PyStr ''no_action'') \<and>
   delayed (signal_notify_user_ban_status_change sender_raising
       (MockUserProfile test_user False (Some 1))) = []"
proof -
  let ?off = "MockUserProfile test_user False (Some 1)"
  let ?on = "MockUserProfile test_user True (Some 1)"
  have b: "ret (notify_user_ban_status_change (sender_returning ?off) ?on) = Inr (PyStr ''ban_sent'')"
    by (simp add: notify_defs fixture_defs)
  have n: "ret (notify_user_ban_status_change (sender_returning ?on) ?off) = Inr (PyStr ''unban_sent'')"
    by (simp add: notify_defs fixture_defs)
  have a: "ret (notify_user_ban_status_change sender_raising ?off) = Inr (PyStr ''no_action'')"
    by (simp add: notify_defs fixture_defs)
  have u: "user ?on = test_user" "user ?off = test_user"
    by (simp_all add: MockUserProfile_def)
  show ?thesis
    using b n a
      dispatch_follows_outcome [OF refl refl refl, of "sender_returning ?off" ?on]
      dispatch_follows_outcome [OF refl refl refl, of "sender_returning ?on" ?off]
      dispatch_follows_outcome [OF refl refl refl, of sender_raising ?off]
    by (simp add: u) (simp add: test_user_def)
qed

text \<open>
  C9, as stated, at two instances that both have a primary key, 0 and 5: the collaborator
  answers both keys with the same record and the instances carry the same banned flag, yet
  the first invocation returns \<^verbatim>\<open>None\<close> and the second \<^verbatim>\<open>ban_sent\<close>.
\<close>

theorem zero_and_nonzero_pk_differ:
  "(pk (MockUserProfile test_user True (Some 0)) = None) =
     (pk (MockUserProfile test_user True (Some 5)) = None) \<and>
   objects_get (sender_returning (MockUserProfile test_user False (Some 5))) 0 =
     objects_get (sender_returning (MockUserProfile test_user False (Some 5))) 5 \<and>
   is_banned (MockUserProfile test_user True (Some 0)) =
     is_banned (MockUserProfile test_user True (Some 5)) \<and>
   ret (notify_user_ban_status_change (sender_returning (MockUserProfile test_user False (Some 5)))
       (MockUserProfile test_user True (Some 0))) = Inr PyNone \<and>
   ret (notify_user_ban_status_change (sender_returning (MockUserProfile test_user False (Some 5)))
       (MockUserProfile test_user True (Some 5))) = Inr (PyStr ''ban_sent'') \<and>
   ret (notify_user_ban_status_change (sender_returning (MockUserProfile test_user False (Some 5)))
       (MockUserProfile test_user True (Some 0))) \<noteq>
   ret (notify_user_ban_status_change (sender_returning (MockUserProfile test_user False (Some 5)))
       (MockUserProfile test_user True (Some 5)))"
  by (simp add: notify_defs fixture_defs)

text \<open>
  C9, amended: two invocations return the same outcome whenever their primary keys are
  both truthy or both not (absent or 0), the collaborators answer the two keys alike when
  the keys are truthy (the same exception, or a previous record with the same banned flag),
  and the instances carry the same banned flag. Nothing else of the collaborator, of the
  key or of the user is read for the outcome.
\<close>

theorem outcome_determined_by_inputs:
  assumes "truthy (pk i1) = truthy (pk i2)"
    and "truthy (pk i1) \<Longrightarrow> lookup_result s1 i1 = lookup_result s2 i2"
    and "is_banned i1 = is_banned i2"
  shows "ret (notify_user_ban_status_change s1 i1) = ret (notify_user_ban_status_change s2 i2)"
proof (cases "truthy (pk i1)")
  case False
  with assms(1) show ?thesis
    by (simp add: notify_user_ban_status_change_def)
next
  case True
  with assms(1) obtain k1 k2 where k: "pk i1 = Some k1" "k1 \<noteq> 0" "pk i2 = Some k2" "k2 \<noteq> 0"
    by (cases "pk i1"; cases "pk i2") auto
  from assms(2) True k
  have "map_sum id is_banned (objects_get s1 k1) = map_sum id is_banned (objects_get s2 k2)"
    by (simp add: lookup_result_def)
  with k assms(3) show ?thesis
    by (auto simp: notify_defs split: sum.splits exn.splits)
qed

theorem outcome_determined_by_inputs_witness:
  "truthy (pk (MockUserProfile test_user True (Some 1))) \<and>
   truthy (pk (MockUserProfile other_user True (Some 7))) \<and>
   lookup_result (sender_returning (MockUserProfile test_user False (Some 1)))
       (MockUserProfile test_user True (Some 1)) = Some (Inr False) \<and>
   lookup_result (sender_returning (MockUserProfile other_user False (Some 7)))
       (MockUserProfile other_user True (Some 7)) = Some (Inr False) \<and>
   ret (notify_user_ban_status_change (sender_returning (MockUserProfile test_user False (Some 1)))
       (MockUserProfile test_user True (Some 1))) =
   ret (notify_user_ban_status_change (sender_returning (MockUserProfile other_user False (Some 7)))
       (MockUserProfile other_user True (Some 7))) \<and>
   ret (notify_user_ban_status_change (sender_returning (MockUserProfile test_user False (Some 1)))
       (MockUserProfile test_user True (Some 1))) = Inr (PyStr ''ban_sent'')"
proof -
  let ?s1 = "sender_returning (MockUserProfile test_user False (Some 1))"
  let ?i1 = "MockUserProfile test_user True (Some 1)"
  let ?s2 = "sender_returning (MockUserProfile other_user False (Some 7))"
  let ?i2 = "MockUserProfile other_user True (Some 7)"
  have t: "truthy (pk ?i1)" "truthy (pk ?i2)"
    by (simp_all add: MockUserProfile_def)
  have p: "truthy (pk ?i1) = truthy (pk ?i2)"
    using t by simp
  have r: "lookup_result ?s1 ?i1 = Some (Inr False)" "lookup_result ?s2 ?i2 = Some (Inr False)"
    by (simp_all add: lookup_result_def fixture_defs)
  have l: "lookup_result ?s1 ?i1 = lookup_result ?s2 ?i2"
    by (simp only: r)
  have b: "is_banned ?i1 = is_banned ?i2"
    by (simp add: MockUserProfile_def)
  have v: "ret (notify_user_ban_status_change ?s1 ?i1) = Inr (PyStr ''ban_sent'')"
    by (simp add: notify_defs fixture_defs)
  show ?thesis
    using t r v outcome_determined_by_inputs [OF p l b] by simp
qed

text \<open>
  C10: the handler tests the primary key for truth, not for \<^verbatim>\<open>None\<close>: with the primary key
  set to 0 it leaves through the early exit, returning \<^verbatim>\<open>None\<close> as it does for an absent
  primary key, without a lookup and without a notification.
\<close>

theorem zero_pk_takes_early_exit:
  "notify_user_ban_status_change s (instance\<lparr>pk := Some 0\<rparr>) =
     \<lparr>ret = Inr PyNone, lookups = [], printed = []\<rparr> \<and>
   notify_user_ban_status_change s (instance\<lparr>pk := Some 0\<rparr>) =
     notify_user_ban_status_change s (instance\<lparr>pk := None\<rparr>)"
  by (simp add: notify_user_ban_status_change_def early_return_def)

section \<open>Properties of the unread-message notifier\<close>

subsection \<open>The decimal rendering of the count\<close>

lemma digit_value_digit_char: "d < 10 \<Longrightarrow> digit_value (digit_char d) = d"
proof -
  assume "d < 10"
  then have "d \<in> {0, 1, 2, 3, 4, 5, 6, 7, 8, 9}"
    by auto
  then show ?thesis
    by (auto simp: digit_value_def digit_char_def)
qed

lemma int_of_digits_snoc: "int_of_digits (cs @ [c]) = 10 * int_of_digits cs + digit_value c"
  by (simp add: int_of_digits_def)

lemma int_of_digits_str_nat: "int_of_digits (str_nat n) = n"
proof (induction n rule: str_nat.induct)
  case (1 n)
  show ?case
  proof (cases "n < 10")
    case True
    then show ?thesis
      by (simp add: str_nat.simps [of n] int_of_digits_def digit_value_digit_char)
  next
    case False
    with 1 have "int_of_digits (str_nat (n div 10)) = n div 10"
      by simp
    with False show ?thesis
      by (simp add: str_nat.simps [of n] int_of_digits_snoc digit_value_digit_char)
  qed
qed

subsection \<open>The count computed by the loop\<close>

lemma count_loop_sum:
  "count_loop db u cs n =
     n + (\<Sum>c\<leftarrow>cs. case other_participant c u of None \<Rightarrow> 0 | Some other \<Rightarrow> message_count db c other)"
  by (induction cs arbitrary: n) (auto split: option.splits)

lemma list_set_remdups:
  "inj_on room_id (set cs) \<Longrightarrow> list_set cs = remdups cs"
  by (induction cs) (auto simp: inj_on_def)

lemma set_list_set_subset: "set (list_set cs) \<subseteq> set cs"
  by (induction cs) auto

lemma all_chatrooms_subset: "set (all_chatrooms db u) \<subseteq> set (conversations_of db u)"
proof -
  have "set (all_chatrooms db u) \<subseteq> set (chatrooms_as_p1 db u @ chatrooms_as_p2 db u)"
    unfolding all_chatrooms_def by (rule set_list_set_subset)
  also have "\<dots> \<subseteq> set (conversations_of db u)"
    by (auto simp: chatrooms_as_p1_def chatrooms_as_p2_def conversations_of_def)
  finally show ?thesis .
qed

lemma all_chatrooms_distinct_pk:
  assumes "distinct (map room_id (chat_rooms db))"
  shows "set (all_chatrooms db u) = set (conversations_of db u)"
    and "distinct (all_chatrooms db u)"
proof -
  have inj: "inj_on room_id (set (chat_rooms db))"
    using assms by (simp add: distinct_map)
  have sub: "set (chatrooms_as_p1 db u @ chatrooms_as_p2 db u) \<subseteq> set (chat_rooms db)"
    by (auto simp: chatrooms_as_p1_def chatrooms_as_p2_def)
  have inj': "inj_on room_id (set (chatrooms_as_p1 db u @ chatrooms_as_p2 db u))"
    using inj sub by (rule inj_on_subset)
  show "set (all_chatrooms db u) = set (conversations_of db u)"
    unfolding all_chatrooms_def list_set_remdups[OF inj']
    by (auto simp: chatrooms_as_p1_def chatrooms_as_p2_def conversations_of_def)
  show "distinct (all_chatrooms db u)"
    unfolding all_chatrooms_def list_set_remdups[OF inj'] by simp
qed

lemma other_participant_member:
  "c \<in> set (conversations_of db u) \<Longrightarrow> other_participant c u = Some (other_of c u)"
  by (auto simp: conversations_of_def other_participant_def other_of_def)

lemma new_messages_count_eq_spec:
  assumes "distinct (map room_id (chat_rooms db))"
  shows "new_messages_count db u = unread_spec db u"
proof -
  let ?f = "\<lambda>c. case other_participant c u of None \<Rightarrow> 0 | Some other \<Rightarrow> message_count db c other"
  let ?g = "\<lambda>c. length (filter (\<lambda>m. msg_room m = room_id c \<and> msg_sender m = other_of c u) (messages db))"
  have d: "distinct (conversations_of db u)"
    using assms by (simp add: conversations_of_def distinct_map)
  have "new_messages_count db u = sum_list (map ?f (all_chatrooms db u))"
    by (simp add: new_messages_count_def count_loop_sum)
  also have "\<dots> = sum ?f (set (all_chatrooms db u))"
    using all_chatrooms_distinct_pk(2)[OF assms] by (rule sum_list_distinct_conv_sum_set)
  also have "\<dots> = sum ?f (set (conversations_of db u))"
    by (simp add: all_chatrooms_distinct_pk(1)[OF assms])
  also have "\<dots> = sum ?g (set (conversations_of db u))"
    by (rule sum.cong) (simp_all add: other_participant_member message_count_def)
  also have "\<dots> = sum_list (map ?g (conversations_of db u))"
    using d by (rule sum_list_distinct_conv_sum_set[symmetric])
  finally show ?thesis by (simp add: unread_spec_def)
qed

subsection \<open>The calls to the delivery collaborator\<close>

lemma sublist_subject: "sublist (str_nat n) (subject_text n)"
  unfolding subject_text_def sublist_def by (metis append.assoc)

lemma sublist_message: "sublist (str_nat n) (message_text n)"
  unfolding message_text_def sublist_def by (metis append.assoc)

lemma calls_process_user:
  "calls (process_user send dfe db u st) = calls st @ mails_for dfe db u"
  by (auto simp: process_user_def mails_for_def Let_def split: prod.splits option.splits)

lemma calls_fold:
  "calls (fold (process_user send dfe db) us st) = calls st @ concat (map (mails_for dfe db) us)"
  by (induction us arbitrary: st) (simp_all add: calls_process_user)

lemma calls_run:
  "calls (send_new_message_notifications send dfe db w) = concat (map (mails_for dfe db) (users db))"
  by (simp add: send_new_message_notifications_def calls_fold)

lemma outbox_process_user:
  "world (process_user locmem_send dfe db u st) = world st @ mails_for dfe db u"
  by (auto simp: process_user_def mails_for_def locmem_send_def Let_def)

lemma outbox_fold:
  "world (fold (process_user locmem_send dfe db) us st) = world st @ concat (map (mails_for dfe db) us)"
  by (induction us arbitrary: st) (simp_all add: outbox_process_user)

lemma stdout_process_user: "prefix (stdout st) (stdout (process_user send dfe db u st))"
  by (auto simp: process_user_def Let_def split: prod.splits option.splits)

lemma stdout_fold: "prefix (stdout st) (stdout (fold (process_user send dfe db) us st))"
proof (induction us arbitrary: st)
  case Nil
  show ?case by simp
next
  case (Cons v vs)
  have "prefix (stdout st) (stdout (process_user send dfe db v st))"
    by (rule stdout_process_user)
  also have "prefix \<dots> (stdout (fold (process_user send dfe db) vs (process_user send dfe db v st)))"
    by (rule Cons.IH)
  finally show ?case by simp
qed

lemma process_user_idle:
  "new_messages_count db u = 0 \<Longrightarrow> process_user send dfe db u st = st"
  by (simp add: process_user_def)

lemma fold_idle:
  "\<forall>v\<in>set us. new_messages_count db v = 0 \<Longrightarrow> fold (process_user send dfe db) us st = st"
  by (induction us arbitrary: st) (simp_all add: process_user_idle)

lemma no_rooms_no_count: "conversations_of db u = [] \<Longrightarrow> new_messages_count db u = 0"
  using all_chatrooms_subset[of db u] by (simp add: new_messages_count_def)

lemma own_messages_no_count:
  assumes "\<forall>c\<in>set (conversations_of db u). participant_1 c \<noteq> participant_2 c \<and>
             (\<forall>m\<in>set (messages db). msg_room m = room_id c \<longrightarrow> msg_sender m = user_id u)"
  shows "new_messages_count db u = 0"
proof -
  have "(case other_participant c u of None \<Rightarrow> 0 | Some other \<Rightarrow> message_count db c other) = 0"
    if "c \<in> set (all_chatrooms db u)" for c
  proof -
    from that have c: "c \<in> set (conversations_of db u)"
      using all_chatrooms_subset by blast
    then have p: "participant_1 c = user_id u \<or> participant_2 c = user_id u"
      by (simp add: conversations_of_def)
    from c assms have ne: "participant_1 c \<noteq> participant_2 c"
      and own: "\<forall>m\<in>set (messages db). msg_room m = room_id c \<longrightarrow> msg_sender m = user_id u"
      by blast+
    from p ne have o: "other_of c u \<noteq> user_id u"
      by (auto simp: other_of_def)
    have "message_count db c (other_of c u) = 0"
      using own o by (auto simp: message_count_def filter_empty_conv)
    then show ?thesis
      by (simp add: other_participant_member[OF c])
  qed
  then show ?thesis
    by (simp add: new_messages_count_def count_loop_sum)
qed

lemmas count_defs =
  new_messages_count_def all_chatrooms_def chatrooms_as_p1_def chatrooms_as_p2_def
  other_participant_def message_count_def

lemmas spec_defs = unread_spec_def conversations_of_def other_of_def

lemmas db_defs = test_db_def busy_db_def user1_def user2_def user3_def

text \<open>
  C3: for every user processed by the task, with the primary keys of the chat rooms and of
  the users distinct, the count the loop computes is the sum, over the conversations in
  which the user participates, of the number of messages of that conversation authored by
  the other participant; no other iteration is for that user; and whenever the sum is
  positive the user's iteration makes exactly one call of \<^verbatim>\<open>send_mail\<close>, addressed to the
  user's email, whose subject and body each contain the decimal digits of the count, and an
  outbox that accepts every mail receives exactly that one mail from it.
\<close>

theorem unread_count_and_single_mail:
  assumes "distinct (map room_id (chat_rooms db))"
    and "distinct (map user_id (users db))"
    and "users db = before @ u # after"
  shows "new_messages_count db u = unread_spec db u \<and>
         (\<forall>v\<in>set (before @ after). user_id v \<noteq> user_id u) \<and>
         (0 < unread_spec db u \<longrightarrow>
            calls (send_new_message_notifications send dfe db w) =
              concat (map (mails_for dfe db) before) @ [notification dfe u (unread_spec db u)] @
              concat (map (mails_for dfe db) after) \<and>
            world (send_new_message_notifications locmem_send dfe db outbox) =
              outbox @ concat (map (mails_for dfe db) before) @
              [notification dfe u (unread_spec db u)] @ concat (map (mails_for dfe db) after) \<and>
            recipient_list (notification dfe u (unread_spec db u)) = [user_email u] \<and>
            sublist (str_nat (unread_spec db u)) (subject (notification dfe u (unread_spec db u))) \<and>
            sublist (str_nat (unread_spec db u)) (message (notification dfe u (unread_spec db u))) \<and>
            int_of_digits (str_nat (unread_spec db u)) = unread_spec db u)"
proof (intro conjI impI)
  show eq: "new_messages_count db u = unread_spec db u"
    using assms(1) by (rule new_messages_count_eq_spec)
  have "user_id u \<notin> user_id ` set (before @ after)"
    using assms(2) unfolding assms(3) by (simp add: image_Un)
  then show "\<forall>v\<in>set (before @ after). user_id v \<noteq> user_id u"
    by (metis imageI)
  assume "0 < unread_spec db u"
  then have one: "mails_for dfe db u = [notification dfe u (unread_spec db u)]"
    by (simp add: mails_for_def eq)
  show "calls (send_new_message_notifications send dfe db w) =
      concat (map (mails_for dfe db) before) @ [notification dfe u (unread_spec db u)] @
      concat (map (mails_for dfe db) after)"
    by (simp add: calls_run assms(3) one)
  show "world (send_new_message_notifications locmem_send dfe db outbox) =
      outbox @ concat (map (mails_for dfe db) before) @
      [notification dfe u (unread_spec db u)] @ concat (map (mails_for dfe db) after)"
    by (simp add: send_new_message_notifications_def outbox_fold outbox_process_user assms(3) one)
  show "recipient_list (notification dfe u (unread_spec db u)) = [user_email u]"
    by (simp add: notification_def)
  show "sublist (str_nat (unread_spec db u)) (subject (notification dfe u (unread_spec db u)))"
    by (simp add: notification_def sublist_subject)
  show "sublist (str_nat (unread_spec db u)) (message (notification dfe u (unread_spec db u)))"
    by (simp add: notification_def sublist_message)
  show "int_of_digits (str_nat (unread_spec db u)) = unread_spec db u"
    by (rule int_of_digits_str_nat)
qed

theorem unread_count_and_single_mail_witness:
  "new_messages_count test_db user1 = 2 \<and>
   unread_spec test_db user1 = 2 \<and>
   calls (send_new_message_notifications locmem_send ''webmaster@localhost'' test_db []) =
     [\<lparr>subject = ''Voc'' @ [CHR 0xEA] @ '' tem novas mensagens (2)'',
       message = ''Voc'' @ [CHR 0xEA] @ '' tem 2 novas mensagens n'' @ [CHR 0xE3] @
         ''o lidas. Acesse o AcheiUnB para visualiz'' @ [CHR 0xE1] @ ''-las.'',
       from_email = ''webmaster@localhost'', recipient_list = [''test1@example.com'']\<rparr>] \<and>
   world (send_new_message_notifications locmem_send ''webmaster@localhost'' test_db []) =
     calls (send_new_message_notifications locmem_send ''webmaster@localhost'' test_db [])"
proof -
  have r: "distinct (map room_id (chat_rooms test_db))"
    by (simp add: test_db_def)
  have i: "distinct (map user_id (users test_db))"
    by (simp add: db_defs)
  have s: "users test_db = [] @ user1 # [user2]"
    by (simp add: test_db_def)
  have n: "unread_spec test_db user1 = 2"
    by (simp add: spec_defs db_defs)
  have z: "mails_for ''webmaster@localhost'' test_db user2 = []"
    by (simp add: mails_for_def count_defs db_defs)
  have m: "notification ''webmaster@localhost'' user1 2 =
      \<lparr>subject = ''Voc'' @ [CHR 0xEA] @ '' tem novas mensagens (2)'',
       message = ''Voc'' @ [CHR 0xEA] @ '' tem 2 novas mensagens n'' @ [CHR 0xE3] @
         ''o lidas. Acesse o AcheiUnB para visualiz'' @ [CHR 0xE1] @ ''-las.'',
       from_email = ''webmaster@localhost'', recipient_list = [''test1@example.com'']\<rparr>"
    by (simp add: notification_def subject_text_def message_text_def str_nat.simps digit_char_def user1_def)
  note t = unread_count_and_single_mail [OF r i s,
      where send = locmem_send and dfe = "''webmaster@localhost''" and w = "[]" and outbox = "[]"]
  have c: "new_messages_count test_db user1 = 2"
    using t [THEN conjunct1] by (simp only: n)
  have p: "0 < unread_spec test_db user1"
    by (simp add: n)
  note q = t [THEN conjunct2, THEN conjunct2, THEN mp, OF p]
  have l: "calls (send_new_message_notifications locmem_send ''webmaster@localhost'' test_db []) =
      [notification ''webmaster@localhost'' user1 2]"
    using q [THEN conjunct1] by (simp add: n z)
  have o: "world (send_new_message_notifications locmem_send ''webmaster@localhost'' test_db []) =
      [notification ''webmaster@localhost'' user1 2]"
    using q [THEN conjunct2, THEN conjunct1] by (simp add: n z)
  show ?thesis
    unfolding c n l o m by simp
qed

text \<open>
  C6: the iteration for a user whose computed count is zero leaves the state of the task
  unchanged (no call of \<^verbatim>\<open>send_mail\<close>, no line printed), so the task runs as if that user
  were not in the table. The count is zero for a user with no conversation, and for a user
  who authored every message of the conversations they participate in, the two participants
  of a conversation being distinct users. When every user's count is zero the task ends
  with the outbox as it found it, and with no call made.
\<close>

theorem zero_count_sends_nothing:
  "(new_messages_count db u = 0 \<longrightarrow> process_user send dfe db u st = st) \<and>
   (new_messages_count db u = 0 \<and> users db = before @ u # after \<longrightarrow>
      send_new_message_notifications send dfe db w =
        fold (process_user send dfe db) (before @ after) \<lparr>world = w, calls = [], stdout = []\<rparr>) \<and>
   (conversations_of db u = [] \<longrightarrow> new_messages_count db u = 0) \<and>
   ((\<forall>c\<in>set (conversations_of db u). participant_1 c \<noteq> participant_2 c \<and>
       (\<forall>m\<in>set (messages db). msg_room m = room_id c \<longrightarrow> msg_sender m = user_id u))
      \<longrightarrow> new_messages_count db u = 0) \<and>
   ((\<forall>v\<in>set (users db). new_messages_count db v = 0) \<longrightarrow>
      send_new_message_notifications send dfe db w = \<lparr>world = w, calls = [], stdout = []\<rparr>)"
proof (intro conjI impI)
  show "process_user send dfe db u st = st" if "new_messages_count db u = 0"
    using that by (rule process_user_idle)
  show "send_new_message_notifications send dfe db w =
      fold (process_user send dfe db) (before @ after) \<lparr>world = w, calls = [], stdout = []\<rparr>"
    if "new_messages_count db u = 0 \<and> users db = before @ u # after"
    using that by (simp add: send_new_message_notifications_def process_user_idle)
  show "new_messages_count db u = 0" if "conversations_of db u = []"
    using that by (rule no_rooms_no_count)
  show "new_messages_count db u = 0"
    if "\<forall>c\<in>set (conversations_of db u). participant_1 c \<noteq> participant_2 c \<and>
         (\<forall>m\<in>set (messages db). msg_room m = room_id c \<longrightarrow> msg_sender m = user_id u)"
    using that by (rule own_messages_no_count)
  show "send_new_message_notifications send dfe db w = \<lparr>world = w, calls = [], stdout = []\<rparr>"
    if "\<forall>v\<in>set (users db). new_messages_count db v = 0"
    using that unfolding send_new_message_notifications_def by (rule fold_idle)
qed

theorem zero_count_sends_nothing_witness:
  "new_messages_count test_db user2 = 0 \<and>
   process_user locmem_send ''webmaster@localhost'' test_db user2
       \<lparr>world = [], calls = [], stdout = []\<rparr> = \<lparr>world = [], calls = [], stdout = []\<rparr> \<and>
   send_new_message_notifications locmem_send ''webmaster@localhost'' test_db [] =
     fold (process_user locmem_send ''webmaster@localhost'' test_db) [user1]
       \<lparr>world = [], calls = [], stdout = []\<rparr> \<and>
   conversations_of test_db user3 = [] \<and>
   new_messages_count test_db user3 = 0 \<and>
   send_new_message_notifications locmem_send ''webmaster@localhost'' quiet_db [] =
     \<lparr>world = [], calls = [], stdout = []\<rparr>"
proof -
  note t2 = zero_count_sends_nothing [where db = test_db and u = user2 and send = locmem_send
      and dfe = "''webmaster@localhost''" and st = "\<lparr>world = [], calls = [], stdout = []\<rparr>"
      and w = "[]" and before = "[user1]" and after = "[]"]
  note t3 = zero_count_sends_nothing [where db = test_db and u = user3 and send = locmem_send
      and dfe = "''webmaster@localhost''" and st = "\<lparr>world = [], calls = [], stdout = []\<rparr>"
      and w = "[]"]
  note tq = zero_count_sends_nothing [where db = quiet_db and u = user1 and send = locmem_send
      and dfe = "''webmaster@localhost''" and st = "\<lparr>world = [], calls = [], stdout = []\<rparr>"
      and w = "[]"]
  have own: "\<forall>c\<in>set (conversations_of test_db user2). participant_1 c \<noteq> participant_2 c \<and>
      (\<forall>m\<in>set (messages test_db). msg_room m = room_id c \<longrightarrow> msg_sender m = user_id user2)"
    by (simp add: conversations_of_def db_defs)
  have z2: "new_messages_count test_db user2 = 0"
    using t2 [THEN conjunct2, THEN conjunct2, THEN conjunct2, THEN conjunct1] own by (rule mp)
  have i2: "process_user locmem_send ''webmaster@localhost'' test_db user2
      \<lparr>world = [], calls = [], stdout = []\<rparr> = \<lparr>world = [], calls = [], stdout = []\<rparr>"
    using t2 [THEN conjunct1] z2 by (rule mp)
  have s2: "users test_db = [user1] @ user2 # []"
    by (simp add: test_db_def)
  have r2: "send_new_message_notifications locmem_send ''webmaster@localhost'' test_db [] =
      fold (process_user locmem_send ''webmaster@localhost'' test_db) [user1]
        \<lparr>world = [], calls = [], stdout = []\<rparr>"
    using t2 [THEN conjunct2, THEN conjunct1] z2 s2 by simp
  have e3: "conversations_of test_db user3 = []"
    by (simp add: conversations_of_def db_defs)
  have z3: "new_messages_count test_db user3 = 0"
    using t3 [THEN conjunct2, THEN conjunct2, THEN conjunct1] e3 by (rule mp)
  have zq: "\<forall>v\<in>set (users quiet_db). new_messages_count quiet_db v = 0"
    by (simp add: quiet_db_def count_defs db_defs)
  have rq: "send_new_message_notifications locmem_send ''webmaster@localhost'' quiet_db [] =
      \<lparr>world = [], calls = [], stdout = []\<rparr>"
    using tq [THEN conjunct2, THEN conjunct2, THEN conjunct2, THEN conjunct2] zq by (rule mp)
  show ?thesis
    using z2 i2 r2 e3 z3 rq by (intro conjI)
qed

text \<open>
  C7: when \<^verbatim>\<open>send_mail\<close> raises for one user, the exception is caught: the line
  \<^verbatim>\<open>Erro ao enviar e-mail para\<close>, the user's email, a colon and the text of the exception
  is printed, so the line contains both the email and the error text; the task goes on
  with the users after that one from the resulting state, every later user with unread
  messages still gets the call of \<^verbatim>\<open>send_mail\<close>, no call is repeated, and the printed line
  is still in the output when the task ends.
\<close>

theorem delivery_failure_is_isolated:
  assumes "users db = before @ u # after"
    and "0 < new_messages_count db u"
    and "st = fold (process_user send dfe db) before \<lparr>world = w, calls = [], stdout = []\<rparr>"
    and "send (world st) (notification dfe u (new_messages_count db u)) = (w', Some e)"
    and "line = ''Erro ao enviar e-mail para '' @ user_email u @ '': '' @ e"
  shows "process_user send dfe db u st =
           st\<lparr>world := w', calls := calls st @ [notification dfe u (new_messages_count db u)],
              stdout := stdout st @ [line]\<rparr> \<and>
         send_new_message_notifications send dfe db w =
           fold (process_user send dfe db) after (process_user send dfe db u st) \<and>
         calls (send_new_message_notifications send dfe db w) =
           concat (map (mails_for dfe db) before) @
           [notification dfe u (new_messages_count db u)] @
           concat (map (mails_for dfe db) after) \<and>
         prefix (stdout st @ [line]) (stdout (send_new_message_notifications send dfe db w)) \<and>
         sublist (user_email u) line \<and>
         sublist e line"
proof (intro conjI)
  show step: "process_user send dfe db u st =
      st\<lparr>world := w', calls := calls st @ [notification dfe u (new_messages_count db u)],
         stdout := stdout st @ [line]\<rparr>"
    using assms(2,4) by (simp add: process_user_def Let_def error_line_def assms(5))
  show run: "send_new_message_notifications send dfe db w =
      fold (process_user send dfe db) after (process_user send dfe db u st)"
    by (simp add: send_new_message_notifications_def assms(1,3))
  show "calls (send_new_message_notifications send dfe db w) =
      concat (map (mails_for dfe db) before) @ [notification dfe u (new_messages_count db u)] @
      concat (map (mails_for dfe db) after)"
    using assms(2) by (simp add: calls_run assms(1) mails_for_def)
  have "stdout (process_user send dfe db u st) = stdout st @ [line]"
    by (simp add: step)
  then show "prefix (stdout st @ [line]) (stdout (send_new_message_notifications send dfe db w))"
    unfolding run using stdout_fold [of "process_user send dfe db u st" send dfe db after]
    by simp
  have "line = ''Erro ao enviar e-mail para '' @ user_email u @ ('': '' @ e)"
    by (simp add: assms(5))
  then show "sublist (user_email u) line"
    unfolding sublist_def by blast
  have "line = (''Erro ao enviar e-mail para '' @ user_email u @ '': '') @ e @ []"
    by (simp add: assms(5))
  then show "sublist e line"
    unfolding sublist_def by blast
qed

theorem delivery_failure_is_isolated_witness:
  "calls (send_new_message_notifications (refusing_send [''test1@example.com''])
       ''webmaster@localhost'' busy_db []) =
     [notification ''webmaster@localhost'' user1 2, notification ''webmaster@localhost'' user2 1] \<and>
   prefix [''Erro ao enviar e-mail para test1@example.com: SMTPException'']
     (stdout (send_new_message_notifications (refusing_send [''test1@example.com''])
        ''webmaster@localhost'' busy_db [])) \<and>
   world (send_new_message_notifications (refusing_send [''test1@example.com''])
       ''webmaster@localhost'' busy_db []) = [notification ''webmaster@localhost'' user2 1]"
proof -
  let ?send = "refusing_send [''test1@example.com'']"
  let ?st = "\<lparr>world = [], calls = [], stdout = []\<rparr> :: mail list task_state"
  have n1: "new_messages_count busy_db user1 = 2"
    by (simp add: count_defs db_defs)
  have n2: "new_messages_count busy_db user2 = 1"
    by (simp add: count_defs db_defs)
  have s: "users busy_db = [] @ user1 # [user2]"
    by (simp add: busy_db_def)
  have p: "0 < new_messages_count busy_db user1"
    by (simp add: n1)
  have f: "?st = fold (process_user ?send ''webmaster@localhost'' busy_db) [] ?st"
    by simp
  have r: "?send (world ?st) (notification ''webmaster@localhost'' user1 (new_messages_count busy_db user1)) =
      ([], Some ''SMTPException'')"
    by (simp add: refusing_send_def notification_def user1_def)
  note t = delivery_failure_is_isolated [OF s p f r refl]
  have c: "calls (send_new_message_notifications ?send ''webmaster@localhost'' busy_db []) =
      [notification ''webmaster@localhost'' user1 2, notification ''webmaster@localhost'' user2 1]"
    using t [THEN conjunct2, THEN conjunct2, THEN conjunct1]
    by (simp add: mails_for_def n1 n2)
  have l: "prefix [''Erro ao enviar e-mail para test1@example.com: SMTPException'']
      (stdout (send_new_message_notifications ?send ''webmaster@localhost'' busy_db []))"
    using t [THEN conjunct2, THEN conjunct2, THEN conjunct2, THEN conjunct1]
    by (simp add: user1_def)
  have w: "world (send_new_message_notifications ?send ''webmaster@localhost'' busy_db []) =
      [notification ''webmaster@localhost'' user2 1]"
    unfolding t [THEN conjunct2, THEN conjunct1] t [THEN conjunct1]
    by (simp add: process_user_def n2 [unfolded user2_def] Let_def refusing_send_def
        notification_def user2_def)
  show ?thesis
    using c l w by (intro conjI)
qed

end
